theory Spec2Isabelle
  imports Complex_Main
begin

section \<open>Data model: the catalog dataframe\<close>

text \<open>
  The catalog is a pandas dataframe: an ordered list of named columns, each with one
  dtype. A float64 column may hold NaN (written \<open>None\<close>), an int64 column may not; an
  object column holds strings or NaN. The row labels are the default ones,
  \<open>0 .. N - 1\<close>, as \<open>validate_and_clean_csv\<close> leaves them after
  \<open>reset_index(drop=True)\<close>, so that a row label is the row position.

  Numbers are real numbers. The arithmetic of the scaler and of the similarity is
  therefore exact, where float64 rounds after every operation: a statement proved here
  about the value of a score is a statement about exact arithmetic. The theorems below
  about the call use of the scores only that there are N of them, that the library's
  sort orders them, or their values on inputs where every intermediate result is a
  small dyadic number and float64 computes it exactly.
\<close>

datatype error =
    KeyError string
  | ValueError string
  | IndexError
  | FloatingPointError

datatype cell =
    CFloat "real option"
  | CInt int
  | CBool bool
  | CObj "string option"

datatype series =
    FloatCol "real option list"
  | IntCol "int list"
  | BoolCol "bool list"
  | ObjCol "string option list"

type_synonym dataframe = "(string \<times> series) list"

fun cells :: "series \<Rightarrow> cell list" where
  "cells (FloatCol xs) = map CFloat xs"
| "cells (IntCol xs) = map CInt xs"
| "cells (BoolCol xs) = map CBool xs"
| "cells (ObjCol xs) = map CObj xs"

text \<open>\<open>len(df)\<close>: the number of rows.\<close>

definition n_rows :: "dataframe \<Rightarrow> nat" where
  "n_rows df = (case df of [] \<Rightarrow> 0 | (_, s) # _ \<Rightarrow> length (cells s))"

text \<open>The invariant of every dataframe: column names are distinct here (as read from a
  CSV header) and all columns have the same number of rows.\<close>

definition wf_df :: "dataframe \<Rightarrow> bool" where
  "wf_df df \<longleftrightarrow> distinct (map fst df) \<and> (\<forall>s \<in> set (map snd df). length (cells s) = n_rows df)"

text \<open>\<open>df[name]\<close> raises KeyError for a name that is not a column.\<close>

definition getitem :: "dataframe \<Rightarrow> string \<Rightarrow> error + series" where
  "getitem df name = (case map_of df name of None \<Rightarrow> Inl (KeyError name) | Some s \<Rightarrow> Inr s)"

text \<open>\<open>df.select_dtypes(include=['float64', 'int64']).columns\<close>\<close>

fun is_numeric :: "series \<Rightarrow> bool" where
  "is_numeric (FloatCol _) = True"
| "is_numeric (IntCol _) = True"
| "is_numeric (BoolCol _) = False"
| "is_numeric (ObjCol _) = False"

definition numeric_cols :: "dataframe \<Rightarrow> string list" where
  "numeric_cols df = map fst (filter (\<lambda>c. is_numeric (snd c)) df)"

section \<open>features.py\<close>

definition FEATURE_COLS :: "string list" where
  "FEATURE_COLS = [''danceability'', ''energy'', ''key'', ''loudness'', ''mode'',
     ''speechiness'', ''acousticness'', ''instrumentalness'', ''liveness'', ''valence'',
     ''tempo'', ''duration_ms'']"

definition get_feature_columns :: "string list" where
  "get_feature_columns = FEATURE_COLS"

section \<open>Library operations used by recommend.py\<close>

text \<open>Sequencing of fallible steps: the first error wins.\<close>

fun collect :: "(error + 'a) list \<Rightarrow> error + 'a list" where
  "collect [] = Inr []"
| "collect (r # rs) =
     (case r of Inl e \<Rightarrow> Inl e
      | Inr v \<Rightarrow> (case collect rs of Inl e \<Rightarrow> Inl e | Inr vs \<Rightarrow> Inr (v # vs)))"

text \<open>
  Division of floats. numpy gives inf or NaN for a zero divisor; neither is a real
  number, so the model makes that outcome the error \<open>FloatingPointError\<close> instead of
  HOL's \<open>x / 0 = 0\<close>.
\<close>

definition fdiv :: "real \<Rightarrow> real \<Rightarrow> error + real" where
  "fdiv x y = (if y = 0 then Inl FloatingPointError else Inr (x / y))"

text \<open>
  The scaler reads an int64 column as float64. An integer of more than 53 bits is
  rounded to 53 significant bits, ties to the even neighbour, so that \<open>2^53\<close> and
  \<open>2^53 + 1\<close> become the same number.
\<close>

fun bit_length :: "nat \<Rightarrow> nat" where
  "bit_length n = (if n = 0 then 0 else Suc (bit_length (n div 2)))"

declare bit_length.simps [simp del]

definition float64_of_int :: "int \<Rightarrow> real" where
  "float64_of_int i =
     (let a = nat \<bar>i\<bar>;
          k = bit_length a - 53;
          q = a div 2 ^ k;
          r = a mod 2 ^ k;
          q' = (if 2 ^ k < 2 * r \<or> (2 * r = 2 ^ k \<and> odd q) then q + 1 else q)
      in real_of_int (sgn i) * real (q' * 2 ^ k))"

text \<open>\<open>.fillna(0)\<close> on one column, read as floats. An object column cannot be
  converted by the scaler.\<close>

fun fillna0 :: "series \<Rightarrow> error + real list" where
  "fillna0 (FloatCol xs) = Inr (map (\<lambda>x. case x of None \<Rightarrow> 0 | Some v \<Rightarrow> v) xs)"
| "fillna0 (IntCol xs) = Inr (map float64_of_int xs)"
| "fillna0 (BoolCol xs) = Inr (map (\<lambda>b. if b then 1 else 0) xs)"
| "fillna0 (ObjCol xs) = Inl (ValueError ''could not convert string to float'')"

text \<open>\<open>df[feature_cols].fillna(0)\<close>, held column by column.\<close>

definition numeric_df :: "dataframe \<Rightarrow> string list \<Rightarrow> error + real list list" where
  "numeric_df df feature_cols =
     collect (map (\<lambda>c. case getitem df c of Inl e \<Rightarrow> Inl e | Inr s \<Rightarrow> fillna0 s) feature_cols)"

text \<open>
  sklearn's \<open>_handle_zeros_in_scale\<close>: the entries of a scale that are marked constant
  are replaced by 1. Without a mask from the caller the mark is ``below ten machine
  epsilons'' (\<open>np.finfo(float64).eps\<close> is \<open>2^-52\<close>).
\<close>

definition eps :: real where
  "eps = 1 / 2 ^ 52"

definition handle_zeros_in_scale :: "real \<Rightarrow> bool option \<Rightarrow> real" where
  "handle_zeros_in_scale scale constant_mask =
     (let mask = (case constant_mask of None \<Rightarrow> scale < 10 * eps | Some m \<Rightarrow> m)
      in if mask then 1 else scale)"

text \<open>
  \<open>StandardScaler().fit_transform\<close>: per column, subtract the mean and divide by the
  population standard deviation; the scaler marks a column constant by sklearn's
  \<open>_is_constant_feature\<close> and divides it by 1. An input without rows is rejected.
  Mean and variance are the exact ones.
\<close>

definition mean :: "real list \<Rightarrow> error + real" where
  "mean xs = fdiv (sum_list xs) (real (length xs))"

definition var :: "real list \<Rightarrow> error + real" where
  "var xs = (case mean xs of Inl e \<Rightarrow> Inl e
             | Inr m \<Rightarrow> fdiv (sum_list (map (\<lambda>x. (x - m) * (x - m)) xs)) (real (length xs)))"

definition is_constant_feature :: "real \<Rightarrow> real \<Rightarrow> nat \<Rightarrow> bool" where
  "is_constant_feature v m n_samples \<longleftrightarrow>
     v \<le> real n_samples * eps * v + (real n_samples * m * eps) * (real n_samples * m * eps)"

definition scale_column :: "real list \<Rightarrow> error + real list" where
  "scale_column xs =
     (case mean xs of Inl e \<Rightarrow> Inl e
      | Inr m \<Rightarrow>
     (case var xs of Inl e \<Rightarrow> Inl e
      | Inr v \<Rightarrow>
        let scale = handle_zeros_in_scale (sqrt v) (Some (is_constant_feature v m (length xs)))
        in collect (map (\<lambda>x. fdiv (x - m) scale) xs)))"

definition to_rows :: "nat \<Rightarrow> real list list \<Rightarrow> real list list" where
  "to_rows n cols = map (\<lambda>i. map (\<lambda>c. c ! i) cols) [0..<n]"

text \<open>The result is the N-by-F matrix as a list of N rows.\<close>

definition fit_transform :: "nat \<Rightarrow> real list list \<Rightarrow> error + real list list" where
  "fit_transform n cols =
     (if n = 0 then Inl (ValueError ''Found array with 0 sample(s)'')
      else case collect (map scale_column cols) of
             Inl e \<Rightarrow> Inl e
           | Inr scaled \<Rightarrow> Inr (to_rows n scaled))"

text \<open>
  \<open>cosine_similarity(X, Y)\<close> for a one-row \<open>X\<close>: both sides are normalised row by row
  (sklearn's \<open>normalize\<close>, which passes the norms through \<open>_handle_zeros_in_scale\<close>
  without a mask), then multiplied.
\<close>

definition dot :: "real list \<Rightarrow> real list \<Rightarrow> real" where
  "dot u v = sum_list (map2 (*) u v)"

definition row_norm :: "real list \<Rightarrow> real" where
  "row_norm v = sqrt (dot v v)"

definition normalize_row :: "real list \<Rightarrow> error + real list" where
  "normalize_row v =
     (let norm = handle_zeros_in_scale (row_norm v) None
      in collect (map (\<lambda>x. fdiv x norm) v))"

definition cosine_similarity :: "real list \<Rightarrow> real list list \<Rightarrow> error + real list" where
  "cosine_similarity x Y =
     (case normalize_row x of Inl e \<Rightarrow> Inl e
      | Inr xn \<Rightarrow>
     (case collect (map normalize_row Y) of Inl e \<Rightarrow> Inl e
      | Inr Yn \<Rightarrow> Inr (map (dot xn) Yn)))"

text \<open>
  \<open>sims.argsort()\<close>. numpy documents of its default sort only that the result lists
  the positions of the array in ascending order of their values; the order it leaves
  equal values in is not specified and differs between its sort kernels. The sort is
  therefore a parameter \<open>argsort\<close> of the model, and \<open>argsort_spec\<close> is all that is
  known of it.
\<close>

definition argsort_spec :: "(real list \<Rightarrow> nat list) \<Rightarrow> bool" where
  "argsort_spec argsort \<longleftrightarrow>
     (\<forall>sims. length (argsort sims) = length sims
           \<and> set (argsort sims) = {0..<length sims}
           \<and> sorted (map (\<lambda>i. sims ! i) (argsort sims)))"

text \<open>One sort that meets \<open>argsort_spec\<close>: insertion sort, which numpy's portable
  kernel runs on short arrays.\<close>

definition insertion_argsort :: "real list \<Rightarrow> nat list" where
  "insertion_argsort sims = sort_key (\<lambda>i. sims ! i) [0..<length sims]"

text \<open>The slice \<open>xs[1:stop]\<close>, with Python's reading of a negative or too large bound.\<close>

definition slice_from1 :: "'a list \<Rightarrow> int \<Rightarrow> 'a list" where
  "slice_from1 xs stop =
     (let len = int (length xs);
          e = (if stop < 0 then max 0 (len + stop) else min stop len)
      in drop 1 (take (nat e) xs))"

section \<open>recommend.py\<close>

definition track_column :: string where
  "track_column = ''song''"

definition artist_column :: string where
  "artist_column = ''artist''"

definition exclude_cols :: "string list" where
  "exclude_cols = [''artist'', ''song'', ''duration_ms'', ''explicit'', ''year'',
     ''popularity'', ''genre'']"

text \<open>The feature columns chosen in lines 20 to 32 of recommend.py.\<close>

definition feature_cols :: "dataframe \<Rightarrow> error + string list" where
  "feature_cols df =
     (let cols = filter (\<lambda>col. col \<notin> set exclude_cols) (numeric_cols df);
          cols' = (if cols = []
                   then filter (\<lambda>col. col \<notin> set [''year'', ''popularity'']) (numeric_cols df)
                   else cols)
      in if cols' = [] then Inl (ValueError ''No numeric features found for recommendations'')
         else Inr cols')"

text \<open>\<open>df[df[track_column] == song_name].index[0]\<close>: the first row whose track cell is
  the name.\<close>

fun first_index :: "cell list \<Rightarrow> cell \<Rightarrow> nat option" where
  "first_index [] v = None"
| "first_index (c # cs) v = (if c = v then Some 0 else map_option Suc (first_index cs v))"

text \<open>
  One row of the returned frame: its row label, its track cell and the added
  \<open>similarity\<close> column. The \<open>spotify_link\<close> column is text formatted from the row's
  artist and track cells; the model keeps of it only what it does to the control flow.
  With rows to format, \<open>row['artist']\<close> raises KeyError when there is no such column.
  With no row, \<open>recs.apply(..., axis=1)\<close> (pandas 2) calls the function once on a row
  of NaN to learn the shape of its result: the text it gets makes the result an empty
  column, while a KeyError there is swallowed and leaves a copy of the whole frame,
  which the assignment to the single column \<open>spotify_link\<close> then rejects.
\<close>

record rec_row =
  rec_index :: nat
  rec_song :: cell
  rec_similarity :: real

definition build_recs :: "dataframe \<Rightarrow> cell list \<Rightarrow> real list \<Rightarrow> nat list \<Rightarrow> error + rec_row list" where
  "build_recs df track sims similar_indices =
     (let recs = map (\<lambda>i. \<lparr>rec_index = i, rec_song = track ! i, rec_similarity = sims ! i\<rparr>)
                   similar_indices
      in case getitem df artist_column of
           Inl e \<Rightarrow>
             if recs = []
             then Inl (ValueError ''Cannot set a DataFrame with multiple columns to the single column spotify_link'')
             else Inl e
         | Inr _ \<Rightarrow> Inr recs)"

text \<open>Lines 34 to 65 of \<open>recommend_from_song\<close>: scoring and ranking on the feature
  columns that lines 20 to 32 have chosen.\<close>

definition rank_on_features ::
  "(real list \<Rightarrow> nat list) \<Rightarrow> string \<Rightarrow> dataframe \<Rightarrow> int \<Rightarrow> series \<Rightarrow> string list
     \<Rightarrow> error + rec_row list" where
  "rank_on_features argsort song_name df n track fc =
     (case numeric_df df fc of Inl e \<Rightarrow> Inl e
      | Inr cols \<Rightarrow>
     (case fit_transform (n_rows df) cols of Inl e \<Rightarrow> Inl e
      | Inr features_scaled \<Rightarrow>
     (case first_index (cells track) (CObj (Some song_name)) of None \<Rightarrow> Inl IndexError
      | Some idx \<Rightarrow>
        if idx \<ge> length features_scaled then Inl IndexError
        else
     (case cosine_similarity (features_scaled ! idx) features_scaled of Inl e \<Rightarrow> Inl e
      | Inr sims \<Rightarrow>
        let similar_indices = slice_from1 (rev (argsort sims)) (n + 1)
        in build_recs df (cells track) sims similar_indices))))"

text \<open>The whole function. The empty frame \<open>pd.DataFrame()\<close> is the empty list of
  rows.\<close>

definition recommend_from_song ::
  "(real list \<Rightarrow> nat list) \<Rightarrow> string \<Rightarrow> dataframe \<Rightarrow> int \<Rightarrow> error + rec_row list" where
  "recommend_from_song argsort song_name df n =
     (case getitem df track_column of Inl e \<Rightarrow> Inl e
      | Inr track \<Rightarrow>
        if CObj (Some song_name) \<notin> set (cells track) then Inr []
        else
     (case feature_cols df of Inl e \<Rightarrow> Inl e
      | Inr fc \<Rightarrow> rank_on_features argsort song_name df n track fc))"

section \<open>data.py: the loader's feature check\<close>

text \<open>Lines 151 to 174 of \<open>load_songs_from_csv\<close>. The list is only printed and tested
  for emptiness there; the loader returns the dataframe unchanged.
  \<open>select_dtypes(include=['number'])\<close> selects the float and int columns.\<close>

definition audio_feature_columns :: "string list" where
  "audio_feature_columns = [''danceability'', ''energy'', ''key'', ''loudness'', ''mode'',
     ''speechiness'', ''acousticness'', ''instrumentalness'', ''liveness'', ''valence'',
     ''tempo'', ''duration_ms'']"

definition available_features :: "dataframe \<Rightarrow> error + string list" where
  "available_features df =
     (let available = filter (\<lambda>col. col \<in> set (map fst df)) audio_feature_columns;
          available' = (if available = []
                        then filter (\<lambda>col. col \<notin> set [''id'', ''duration_ms'', ''year'', ''popularity''])
                               (numeric_cols df)
                        else available)
      in if available' = []
         then Inl (ValueError ''No suitable features found in the CSV file for recommendations.'')
         else Inr available')"

section \<open>Specification-level definitions\<close>

text \<open>The closed forms below restate what the fallible code computes when no step
  fails; the lemmas of the next section show that it does compute them.\<close>

definition col_mean :: "real list \<Rightarrow> real" where
  "col_mean xs = sum_list xs / real (length xs)"

definition col_var :: "real list \<Rightarrow> real" where
  "col_var xs = sum_list (map (\<lambda>x. (x - col_mean xs) * (x - col_mean xs)) xs) / real (length xs)"

definition col_scale :: "real list \<Rightarrow> real" where
  "col_scale xs =
     handle_zeros_in_scale (sqrt (col_var xs))
       (Some (is_constant_feature (col_var xs) (col_mean xs) (length xs)))"

definition zscore :: "real list \<Rightarrow> real list" where
  "zscore xs = map (\<lambda>x. (x - col_mean xs) / col_scale xs) xs"

definition unit_row :: "real list \<Rightarrow> real list" where
  "unit_row v = map (\<lambda>x. x / handle_zeros_in_scale (row_norm v) None) v"

text \<open>Catalogs used as concrete inputs.\<close>

definition catalog_dup :: dataframe where
  "catalog_dup =
     [(''artist'', ObjCol [Some ''w'', Some ''x'', Some ''y'', Some ''z'']),
      (''song'', ObjCol [Some ''A'', Some ''B'', Some ''C'', Some ''D'']),
      (''energy'', FloatCol [Some 0, Some 0, Some 2, Some 2])]"

definition catalog_single :: dataframe where
  "catalog_single =
     [(''artist'', ObjCol [Some ''w'']),
      (''song'', ObjCol [Some ''A'']),
      (''energy'', FloatCol [Some 3])]"

definition catalog_ties :: dataframe where
  "catalog_ties =
     [(''artist'', ObjCol [Some ''v'', Some ''w'', Some ''x'', Some ''y'', Some ''z'']),
      (''song'', ObjCol [Some ''A'', Some ''B'', Some ''C'', Some ''D'', Some ''E'']),
      (''energy'', FloatCol [Some 5, Some 0, Some 0, Some 0, Some 0])]"

definition catalog_schema :: dataframe where
  "catalog_schema =
     [(''artist'', ObjCol [Some ''w'', Some ''x'']),
      (''song'', ObjCol [Some ''A'', Some ''B'']),
      (''energy'', FloatCol [Some 1, Some 2]),
      (''duration_ms'', IntCol [200000, 180000]),
      (''bpm'', FloatCol [Some 120, Some 90])]"

definition catalog_no_features :: dataframe where
  "catalog_no_features =
     [(''artist'', ObjCol [Some ''w'', Some ''x'']),
      (''song'', ObjCol [Some ''A'', Some ''B'']),
      (''year'', IntCol [1999, 2001])]"

section \<open>The steps of the computation never fail on a well-formed catalog\<close>

lemma collect_map_Inr [simp]: "collect (map (\<lambda>x. Inr (f x)) xs) = Inr (map f xs)"
  by (induction xs) auto

lemma collect_all_Inr:
  "(\<And>x. x \<in> set xs \<Longrightarrow> \<exists>v. g x = Inr v \<and> P v) \<Longrightarrow>
   \<exists>vs. collect (map g xs) = Inr vs \<and> length vs = length xs \<and> (\<forall>v \<in> set vs. P v)"
proof (induction xs)
  case Nil
  then show ?case by simp
next
  case (Cons x xs)
  from Cons.prems[of x] obtain v where v: "g x = Inr v" "P v" by auto
  from Cons.IH Cons.prems obtain vs where
    vs: "collect (map g xs) = Inr vs" "length vs = length xs" "\<forall>v \<in> set vs. P v"
    by auto
  show ?case using v vs by simp
qed

lemma fdiv_Inr: "y \<noteq> 0 \<Longrightarrow> fdiv x y = Inr (x / y)"
  by (simp add: fdiv_def)

lemma eps_pos: "0 < eps"
  by (simp add: eps_def)

lemma handle_zeros_nonzero [simp]: "handle_zeros_in_scale s None \<noteq> 0"
  using eps_pos by (auto simp: handle_zeros_in_scale_def)

lemma col_scale_nonzero [simp]: "col_scale xs \<noteq> 0"
proof (cases "is_constant_feature (col_var xs) (col_mean xs) (length xs)")
  case True
  then show ?thesis by (simp add: col_scale_def handle_zeros_in_scale_def)
next
  case False
  have "col_var xs \<noteq> 0"
  proof
    assume "col_var xs = 0"
    then have "is_constant_feature (col_var xs) (col_mean xs) (length xs)"
      by (simp add: is_constant_feature_def)
    with False show False by simp
  qed
  then show ?thesis using False by (simp add: col_scale_def handle_zeros_in_scale_def)
qed

lemma mean_Inr: "xs \<noteq> [] \<Longrightarrow> mean xs = Inr (col_mean xs)"
  by (simp add: mean_def col_mean_def fdiv_Inr)

lemma var_Inr: "xs \<noteq> [] \<Longrightarrow> var xs = Inr (col_var xs)"
  by (simp add: var_def mean_Inr col_var_def fdiv_Inr)

lemma scale_column_Inr: "xs \<noteq> [] \<Longrightarrow> scale_column xs = Inr (zscore xs)"
proof -
  assume ne: "xs \<noteq> []"
  have "collect (map (\<lambda>x. fdiv (x - col_mean xs) (col_scale xs)) xs) = Inr (zscore xs)"
    by (simp add: fdiv_Inr zscore_def)
  then show ?thesis
    using ne by (simp add: scale_column_def mean_Inr var_Inr col_scale_def)
qed

lemma length_zscore [simp]: "length (zscore xs) = length xs"
  by (simp add: zscore_def)

lemma fit_transform_Inr:
  assumes "0 < n" and "\<forall>c \<in> set cols. length c = n"
  shows "fit_transform n cols = Inr (to_rows n (map zscore cols))"
proof -
  have "collect (map scale_column cols) = collect (map (\<lambda>c. Inr (zscore c)) cols)"
    using assms by (intro arg_cong[where f=collect] map_cong) (auto simp: scale_column_Inr)
  then show ?thesis using assms by (simp add: fit_transform_def)
qed

lemma length_to_rows [simp]: "length (to_rows n cols) = n"
  by (simp add: to_rows_def)

lemma normalize_row_Inr: "normalize_row v = Inr (unit_row v)"
  by (simp add: normalize_row_def unit_row_def fdiv_Inr)

lemma cosine_similarity_Inr:
  "cosine_similarity x Y = Inr (map (\<lambda>y. dot (unit_row x) (unit_row y)) Y)"
proof -
  have h: "map normalize_row Y = map (\<lambda>v. Inr (unit_row v)) Y"
    by (simp add: normalize_row_Inr)
  show ?thesis
    by (simp add: cosine_similarity_def normalize_row_Inr h comp_def)
qed

lemma argsort_spec_length: "argsort_spec argsort \<Longrightarrow> length (argsort sims) = length sims"
  by (simp add: argsort_spec_def)

lemma argsort_spec_set: "argsort_spec argsort \<Longrightarrow> set (argsort sims) = {0..<length sims}"
  by (simp add: argsort_spec_def)

lemma argsort_spec_sorted:
  "argsort_spec argsort \<Longrightarrow> sorted (map (\<lambda>i. sims ! i) (argsort sims))"
  by (simp add: argsort_spec_def)

lemma insertion_argsort_spec: "argsort_spec insertion_argsort"
  by (simp add: argsort_spec_def insertion_argsort_def)

lemma slice_from1_length:
  "1 \<le> n \<Longrightarrow> length (slice_from1 xs (n + 1)) = min (nat n) (length xs - 1)"
  by (auto simp: slice_from1_def Let_def min_def)

lemma slice_from1_sublist: "\<exists>k. slice_from1 xs e = drop 1 (take k xs)"
  by (auto simp: slice_from1_def Let_def)

lemma first_index_Some:
  "v \<in> set cs \<Longrightarrow> \<exists>i. first_index cs v = Some i \<and> i < length cs \<and> cs ! i = v"
  by (induction cs) auto

lemma feature_cols_numeric:
  "feature_cols df = Inr fc \<Longrightarrow> set fc \<subseteq> set (numeric_cols df) \<and> fc \<noteq> []"
  by (auto simp: feature_cols_def Let_def split: if_splits)

lemma getitem_in_df: "getitem df c = Inr s \<Longrightarrow> (c, s) \<in> set df"
  by (auto simp: getitem_def split: option.splits dest: map_of_SomeD)

lemma wf_df_length: "wf_df df \<Longrightarrow> getitem df c = Inr s \<Longrightarrow> length (cells s) = n_rows df"
  by (force simp: wf_df_def dest: getitem_in_df)

lemma numeric_col_lookup:
  assumes "wf_df df" and "c \<in> set (numeric_cols df)"
  shows "\<exists>s. getitem df c = Inr s \<and> is_numeric s"
proof -
  from assms(2) obtain s where s: "(c, s) \<in> set df" "is_numeric s"
    by (auto simp: numeric_cols_def)
  from assms(1) have "distinct (map fst df)" by (simp add: wf_df_def)
  with s(1) have "map_of df c = Some s" by simp
  with s(2) show ?thesis by (simp add: getitem_def)
qed

lemma fillna0_numeric:
  "is_numeric s \<Longrightarrow> \<exists>xs. fillna0 s = Inr xs \<and> length xs = length (cells s)"
  by (cases s) auto

lemma numeric_df_Inr:
  assumes wf: "wf_df df" and fc: "feature_cols df = Inr fc"
  shows "\<exists>cols. numeric_df df fc = Inr cols \<and> length cols = length fc \<and>
           (\<forall>c \<in> set cols. length c = n_rows df)"
  unfolding numeric_df_def
proof (rule collect_all_Inr)
  fix c assume "c \<in> set fc"
  with fc have "c \<in> set (numeric_cols df)" using feature_cols_numeric by blast
  with wf obtain s where s: "getitem df c = Inr s" "is_numeric s"
    using numeric_col_lookup by blast
  from fillna0_numeric[OF s(2)] obtain xs where
    xs: "fillna0 s = Inr xs" "length xs = length (cells s)"
    by blast
  from wf s(1) have "length (cells s) = n_rows df" by (rule wf_df_length)
  with s xs show "\<exists>v. (case getitem df c of Inl e \<Rightarrow> Inl e | Inr s \<Rightarrow> fillna0 s) = Inr v
                     \<and> length v = n_rows df"
    by simp
qed

text \<open>With the query present and a feature column to score on, every step up to the
  ranking succeeds, and the call returns what \<open>build_recs\<close> makes of the ranking.\<close>

lemma recommend_found:
  assumes wf: "wf_df df" and tr: "getitem df track_column = Inr track"
    and found: "CObj (Some song_name) \<in> set (cells track)"
    and fc: "feature_cols df = Inr fc"
  shows "\<exists>sims. length sims = n_rows df \<and>
           recommend_from_song argsort song_name df n =
             build_recs df (cells track) sims (slice_from1 (rev (argsort sims)) (n + 1))"
proof -
  from wf tr have len: "length (cells track) = n_rows df" by (rule wf_df_length)
  with found have pos: "0 < n_rows df" by (cases "cells track") auto
  from numeric_df_Inr[OF wf fc] obtain cols where
    cols: "numeric_df df fc = Inr cols" "\<forall>c \<in> set cols. length c = n_rows df" by blast
  have ft: "fit_transform (n_rows df) cols = Inr (to_rows (n_rows df) (map zscore cols))"
    using pos cols(2) by (rule fit_transform_Inr)
  from first_index_Some[OF found] obtain idx where
    idx: "first_index (cells track) (CObj (Some song_name)) = Some idx"
         "idx < length (cells track)"
    by blast
  let ?M = "to_rows (n_rows df) (map zscore cols)"
  let ?sims = "map (\<lambda>y. dot (unit_row (?M ! idx)) (unit_row y)) ?M"
  have "recommend_from_song argsort song_name df n =
          build_recs df (cells track) ?sims (slice_from1 (rev (argsort ?sims)) (n + 1))"
    using tr found fc cols(1) ft idx len
    by (simp add: recommend_from_song_def rank_on_features_def cosine_similarity_Inr)
  moreover have "length ?sims = n_rows df" by simp
  ultimately show ?thesis by blast
qed

lemma build_recs_artist:
  "getitem df artist_column = Inr a \<Longrightarrow>
   build_recs df track sims ixs =
     Inr (map (\<lambda>i. \<lparr>rec_index = i, rec_song = track ! i, rec_similarity = sims ! i\<rparr>) ixs)"
  by (simp add: build_recs_def Let_def)

text \<open>Facts about the concrete catalogs.\<close>

lemma catalog_dup_facts:
  "wf_df catalog_dup"
  "getitem catalog_dup track_column = Inr (ObjCol [Some ''A'', Some ''B'', Some ''C'', Some ''D''])"
  "getitem catalog_dup artist_column = Inr (ObjCol [Some ''w'', Some ''x'', Some ''y'', Some ''z''])"
  "feature_cols catalog_dup = Inr [''energy'']"
  "n_rows catalog_dup = 4"
  by (simp_all add: catalog_dup_def wf_df_def n_rows_def getitem_def track_column_def
      artist_column_def feature_cols_def numeric_cols_def exclude_cols_def)

lemma catalog_single_facts:
  "wf_df catalog_single"
  "getitem catalog_single track_column = Inr (ObjCol [Some ''A''])"
  "getitem catalog_single artist_column = Inr (ObjCol [Some ''w''])"
  "feature_cols catalog_single = Inr [''energy'']"
  "n_rows catalog_single = 1"
  by (simp_all add: catalog_single_def wf_df_def n_rows_def getitem_def track_column_def
      artist_column_def feature_cols_def numeric_cols_def exclude_cols_def)

section \<open>The ranking\<close>

text \<open>Whatever the sort does with ties, the positions it returns, reversed and sliced,
  are in non-increasing order of score.\<close>

lemma similar_indices_sorted:
  assumes "argsort_spec argsort"
  shows "sorted_wrt (\<lambda>i j. sims ! j \<le> sims ! i) (slice_from1 (rev (argsort sims)) e)"
proof -
  obtain k where k: "slice_from1 (rev (argsort sims)) e = drop 1 (take k (rev (argsort sims)))"
    using slice_from1_sublist by blast
  have "sorted_wrt (\<lambda>i j. sims ! i \<le> sims ! j) (argsort sims)"
    using argsort_spec_sorted[OF assms, of sims] by (simp add: sorted_map)
  then have "sorted_wrt (\<lambda>i j. sims ! j \<le> sims ! i) (rev (argsort sims))"
    by (simp add: sorted_wrt_rev)
  then show ?thesis unfolding k by simp
qed

text \<open>The two catalogs with tied scores, step by step. All the numbers are small
  dyadic numbers, which float64 computes exactly.\<close>

lemma catalog_dup_scores:
  "numeric_df catalog_dup [''energy''] = Inr [[0, 0, 2, 2]]"
  "fit_transform 4 [[0, 0, 2, 2]] = Inr [[- 1], [- 1], [1], [1]]"
  "cosine_similarity [- 1] [[- 1], [- 1], [1], [1]] = Inr [1, 1, - 1, - 1]"
  by (simp_all add: catalog_dup_def numeric_df_def getitem_def
      fit_transform_def scale_column_def mean_def var_def to_rows_def upt_conv_Cons
      cosine_similarity_def normalize_row_def row_norm_def dot_def
      handle_zeros_in_scale_def is_constant_feature_def eps_def fdiv_def)

lemma catalog_ties_facts:
  "wf_df catalog_ties"
  "getitem catalog_ties track_column =
     Inr (ObjCol [Some ''A'', Some ''B'', Some ''C'', Some ''D'', Some ''E''])"
  "getitem catalog_ties artist_column =
     Inr (ObjCol [Some ''v'', Some ''w'', Some ''x'', Some ''y'', Some ''z''])"
  "feature_cols catalog_ties = Inr [''energy'']"
  "n_rows catalog_ties = 5"
  "numeric_df catalog_ties [''energy''] = Inr [[5, 0, 0, 0, 0]]"
  by (simp_all add: catalog_ties_def wf_df_def n_rows_def getitem_def track_column_def
      artist_column_def feature_cols_def numeric_cols_def exclude_cols_def numeric_df_def)

lemma catalog_ties_scores:
  "fit_transform 5 [[5, 0, 0, 0, 0]] = Inr [[2], [- (1 / 2)], [- (1 / 2)], [- (1 / 2)], [- (1 / 2)]]"
  "cosine_similarity [2] [[2], [- (1 / 2)], [- (1 / 2)], [- (1 / 2)], [- (1 / 2)]]
     = Inr [1, - 1, - 1, - 1, - 1]"
  "insertion_argsort [1, - 1, - 1, - 1, - 1] = [1, 2, 3, 4, 0]"
  by (simp_all add: fit_transform_def scale_column_def mean_def var_def to_rows_def
      upt_conv_Cons cosine_similarity_def normalize_row_def row_norm_def dot_def
      handle_zeros_in_scale_def is_constant_feature_def eps_def fdiv_def real_sqrt_divide
      insertion_argsort_def)

text \<open>The tie of \<open>catalog_dup\<close>: rows 0 and 1 score 1, rows 2 and 3 score -1. Every
  sort puts rows 2 and 3 first and rows 0 and 1 last, in one of the two orders.\<close>

lemma list_of_length_four:
  "length xs = 4 \<Longrightarrow> \<exists>a b c d. xs = [a, b, c, d]"
  by (auto simp: length_Suc_conv numeral_eq_Suc)

lemma tied_scores_nth:
  "i < 4 \<Longrightarrow> [1, 1, - 1, - 1 :: real] ! i = (if i < 2 then 1 else - 1)"
proof -
  assume "i < 4"
  then have "i = 0 \<or> i = 1 \<or> i = 2 \<or> i = 3" by arith
  then show ?thesis by auto
qed

lemma tied_pair_last:
  assumes "argsort_spec argsort"
  shows "\<exists>a b c d. argsort [1, 1, - 1, - 1] = [a, b, c, d]
           \<and> 2 \<le> a \<and> a < 4 \<and> 2 \<le> b \<and> b < 4 \<and> ((c = 0 \<and> d = 1) \<or> (c = 1 \<and> d = 0))"
proof -
  let ?s = "[1, 1, - 1, - 1 :: real]"
  have len: "length (argsort ?s) = 4"
    using argsort_spec_length[OF assms, of ?s] by simp
  then obtain a b c d where p: "argsort ?s = [a, b, c, d]"
    using list_of_length_four by blast
  have st: "set [a, b, c, d] = {0..<length ?s}"
    using argsort_spec_set[OF assms, of ?s] unfolding p .
  have "card (set [a, b, c, d]) = length [a, b, c, d]"
    by (simp only: st) simp
  then have "distinct [a, b, c, d]" by (rule card_distinct)
  then have ne: "a \<noteq> b" "a \<noteq> c" "a \<noteq> d" "b \<noteq> c" "b \<noteq> d" "c \<noteq> d" by auto
  have "a \<in> set [a, b, c, d]" "b \<in> set [a, b, c, d]" "c \<in> set [a, b, c, d]"
    "d \<in> set [a, b, c, d]" by simp_all
  then have lt: "a < 4" "b < 4" "c < 4" "d < 4"
    unfolding st by simp_all
  have "sorted (map (\<lambda>i. ?s ! i) [a, b, c, d])"
    using argsort_spec_sorted[OF assms, of ?s] p by simp
  then have so: "?s ! a \<le> ?s ! b" "?s ! b \<le> ?s ! c" "?s ! c \<le> ?s ! d"
    by simp_all
  have ab: "c < 2 \<or> (2 \<le> a \<and> 2 \<le> b)"
    using so(1,2) lt by (simp add: tied_scores_nth split: if_splits)
  have c2: "c < 2"
  proof (rule ccontr)
    assume "\<not> c < 2"
    with ab lt ne show False by arith
  qed
  have d2: "d < 2"
    using so(3) lt c2 by (simp add: tied_scores_nth split: if_splits)
  have "2 \<le> a" "2 \<le> b" "(c = 0 \<and> d = 1) \<or> (c = 1 \<and> d = 0)"
    using c2 d2 ne by arith+
  with p lt show ?thesis by blast
qed

section \<open>Rows of norm zero\<close>

lemma sum_squares_zero:
  fixes xs :: "real list"
  assumes "sum_list (map (\<lambda>x. (x - m) * (x - m)) xs) = 0" and "x \<in> set xs"
  shows "x = m"
proof -
  have "\<forall>y \<in> set (map (\<lambda>x. (x - m) * (x - m)) xs). 0 \<le> y" by auto
  then have "\<forall>y \<in> set (map (\<lambda>x. (x - m) * (x - m)) xs). y = 0"
    using assms(1) by (simp only: sum_list_nonneg_eq_0_iff)
  with assms(2) have "(x - m) * (x - m) = 0" by auto
  then show ?thesis by simp
qed

lemma dot_self: "dot v v = sum_list (map (\<lambda>x. (x - 0) * (x - 0)) v)"
  by (simp add: dot_def zip_same_conv_map comp_def)

lemma row_norm_zero: "row_norm v = 0 \<Longrightarrow> x \<in> set v \<Longrightarrow> x = 0"
  using sum_squares_zero[of 0 v x] by (simp add: row_norm_def dot_self)

lemma dot_zero_right: "\<forall>x \<in> set v. x = 0 \<Longrightarrow> dot u v = 0"
  unfolding dot_def by (induction u v rule: list_induct2') auto

lemma dot_zero_left: "\<forall>x \<in> set u. x = 0 \<Longrightarrow> dot u v = 0"
  unfolding dot_def by (induction u v rule: list_induct2') auto

lemma unit_row_zero: "row_norm v = 0 \<Longrightarrow> \<forall>x \<in> set (unit_row v). x = 0"
  using row_norm_zero[of v] by (auto simp: unit_row_def)

text \<open>The schema chosen by lines 20 to 32, in closed form.\<close>

lemma feature_cols_closed:
  "feature_cols df =
     (let schema = (if \<exists>col \<in> set (numeric_cols df). col \<notin> set exclude_cols
                    then filter (\<lambda>col. col \<notin> set exclude_cols) (numeric_cols df)
                    else filter (\<lambda>col. col \<noteq> ''year'' \<and> col \<noteq> ''popularity'') (numeric_cols df))
      in if schema = [] then Inl (ValueError ''No numeric features found for recommendations'')
         else Inr schema)"
  by (auto simp: feature_cols_def Let_def filter_empty_conv)

lemma canonical_not_excluded:
  "col \<in> set FEATURE_COLS \<Longrightarrow> col \<noteq> ''duration_ms'' \<Longrightarrow> col \<notin> set exclude_cols"
  by (auto simp: FEATURE_COLS_def exclude_cols_def)

lemma catalog_schema_facts:
  "getitem catalog_schema track_column = Inr (ObjCol [Some ''A'', Some ''B''])"
  "numeric_cols catalog_schema = [''energy'', ''duration_ms'', ''bpm'']"
  by (simp_all add: catalog_schema_def getitem_def track_column_def numeric_cols_def)

lemma catalog_no_features_facts:
  "getitem catalog_no_features track_column = Inr (ObjCol [Some ''A'', Some ''B''])"
  "numeric_cols catalog_no_features = [''year'']"
  by (simp_all add: catalog_no_features_def getitem_def track_column_def numeric_cols_def)

section \<open>Claims\<close>

text \<open>
  C1 (as amended). When the catalog has a track column and the query identifier does
  not occur in it, the call raises nothing: it returns the empty frame, for every
  count and every sort. The caller in main.py tests \<open>recs.empty\<close> for this outcome.
\<close>

theorem missing_song_returns_empty_frame:
  assumes "getitem df track_column = Inr track"
    and "CObj (Some song_name) \<notin> set (cells track)"
  shows "recommend_from_song argsort song_name df n = Inr []"
  using assms by (simp add: recommend_from_song_def)

theorem missing_song_returns_empty_frame_witness:
  "getitem catalog_dup track_column = Inr (ObjCol [Some ''A'', Some ''B'', Some ''C'', Some ''D''])
   \<and> CObj (Some ''E'') \<notin> set (cells (ObjCol [Some ''A'', Some ''B'', Some ''C'', Some ''D'']))
   \<and> recommend_from_song insertion_argsort ''E'' catalog_dup 10 = Inr []"
  using missing_song_returns_empty_frame
    [of catalog_dup "ObjCol [Some ''A'', Some ''B'', Some ''C'', Some ''D'']" "''E''"
        insertion_argsort 10]
  by (simp add: catalog_dup_facts)

text \<open>
  C1 (as stated) fails: for the identifier \<open>nonexistent-id\<close>, which is not in the
  one-song catalog, the call returns a value (the empty frame) and not an error.
\<close>

theorem missing_song_not_an_error_counterexample:
  "CObj (Some ''nonexistent-id'') \<notin> set (cells (ObjCol [Some ''A'']))
   \<and> getitem catalog_single track_column = Inr (ObjCol [Some ''A''])
   \<and> \<not> isl (recommend_from_song insertion_argsort ''nonexistent-id'' catalog_single 10)
   \<and> recommend_from_song insertion_argsort ''nonexistent-id'' catalog_single 10 = Inr []"
  by (simp add: recommend_from_song_def catalog_single_facts)

text \<open>
  C2 (the code at the failing input). In \<open>catalog_dup\<close> the songs A and B have the same
  feature value and different identifiers, so each scores 1 against either of them as
  the query, and the two calls rank the same score array. The slice \<open>[1:n+1]\<close> drops
  the row the reversed sort puts first, whichever row is the query. Whatever the sort
  does with the tie, one of the two queries is therefore returned in its own result
  while its duplicate is dropped: the query A when the sort leaves B last, the query B
  when it leaves A last.
\<close>

theorem duplicate_query_returns_itself:
  assumes "argsort_spec argsort"
  shows "(\<exists>recs. recommend_from_song argsort ''A'' catalog_dup 10 = Inr recs
            \<and> CObj (Some ''A'') \<in> set (map rec_song recs)
            \<and> CObj (Some ''B'') \<notin> set (map rec_song recs))
       \<or> (\<exists>recs. recommend_from_song argsort ''B'' catalog_dup 10 = Inr recs
            \<and> CObj (Some ''B'') \<in> set (map rec_song recs)
            \<and> CObj (Some ''A'') \<notin> set (map rec_song recs))"
proof -
  let ?sims = "[1, 1, - 1, - 1 :: real]"
  let ?track = "cells (ObjCol [Some ''A'', Some ''B'', Some ''C'', Some ''D''])"
  from tied_pair_last[OF assms] obtain a b c d where
    p: "argsort ?sims = [a, b, c, d]" and
    ab: "2 \<le> a" "a < 4" "2 \<le> b" "b < 4" and
    cd: "(c = 0 \<and> d = 1) \<or> (c = 1 \<and> d = 0)"
    by blast
  from ab have a23: "a = 2 \<or> a = 3" and b23: "b = 2 \<or> b = 3" by arith+
  have sl: "slice_from1 (rev (argsort ?sims)) 11 = [c, b, a]"
    by (simp add: p slice_from1_def)
  have call_A: "recommend_from_song argsort ''A'' catalog_dup 10
                  = build_recs catalog_dup ?track ?sims [c, b, a]"
    by (simp add: recommend_from_song_def rank_on_features_def catalog_dup_facts
        catalog_dup_scores sl)
  have call_B: "recommend_from_song argsort ''B'' catalog_dup 10
                  = build_recs catalog_dup ?track ?sims [c, b, a]"
    by (simp add: recommend_from_song_def rank_on_features_def catalog_dup_facts
        catalog_dup_scores sl)
  have recs: "build_recs catalog_dup ?track ?sims [c, b, a]
                = Inr (map (\<lambda>i. \<lparr>rec_index = i, rec_song = ?track ! i,
                                   rec_similarity = ?sims ! i\<rparr>) [c, b, a])"
    by (rule build_recs_artist) (rule catalog_dup_facts(3))
  from cd show ?thesis
  proof
    assume "c = 0 \<and> d = 1"
    then have "CObj (Some ''A'') \<in> set (map rec_song (map (\<lambda>i. \<lparr>rec_index = i,
                 rec_song = ?track ! i, rec_similarity = ?sims ! i\<rparr>) [c, b, a]))"
      and "CObj (Some ''B'') \<notin> set (map rec_song (map (\<lambda>i. \<lparr>rec_index = i,
                 rec_song = ?track ! i, rec_similarity = ?sims ! i\<rparr>) [c, b, a]))"
      using a23 b23 by auto
    with call_A recs show ?thesis by simp
  next
    assume "c = 1 \<and> d = 0"
    then have "CObj (Some ''B'') \<in> set (map rec_song (map (\<lambda>i. \<lparr>rec_index = i,
                 rec_song = ?track ! i, rec_similarity = ?sims ! i\<rparr>) [c, b, a]))"
      and "CObj (Some ''A'') \<notin> set (map rec_song (map (\<lambda>i. \<lparr>rec_index = i,
                 rec_song = ?track ! i, rec_similarity = ?sims ! i\<rparr>) [c, b, a]))"
      using a23 b23 by auto
    with call_B recs show ?thesis by simp
  qed
qed

theorem duplicate_query_returns_itself_witness:
  "argsort_spec insertion_argsort
   \<and> ((\<exists>recs. recommend_from_song insertion_argsort ''A'' catalog_dup 10 = Inr recs
            \<and> CObj (Some ''A'') \<in> set (map rec_song recs)
            \<and> CObj (Some ''B'') \<notin> set (map rec_song recs))
       \<or> (\<exists>recs. recommend_from_song insertion_argsort ''B'' catalog_dup 10 = Inr recs
            \<and> CObj (Some ''B'') \<in> set (map rec_song recs)
            \<and> CObj (Some ''A'') \<notin> set (map rec_song recs)))"
  using duplicate_query_returns_itself[OF insertion_argsort_spec] insertion_argsort_spec
  by blast

text \<open>
  C3 (as amended). For every valid call (well-formed catalog with an artist column and
  a feature column, query present, count at least 1) and every sort that meets numpy's
  contract, the call returns and the scores of the result are non-increasing. Nothing
  is promised about the order of entries with exactly equal scores.
\<close>

theorem ranking_order:
  assumes "argsort_spec argsort"
    and "wf_df df" and "getitem df track_column = Inr track"
    and "CObj (Some song_name) \<in> set (cells track)"
    and "feature_cols df = Inr fc"
    and "getitem df artist_column = Inr artist"
    and "1 \<le> n"
  shows "\<exists>recs. recommend_from_song argsort song_name df n = Inr recs
           \<and> sorted_wrt (\<lambda>a b. rec_similarity a \<ge> rec_similarity b) recs"
proof -
  from recommend_found[OF assms(2-5)] obtain sims where
    sims: "recommend_from_song argsort song_name df n =
         build_recs df (cells track) sims (slice_from1 (rev (argsort sims)) (n + 1))"
    by blast
  let ?ixs = "slice_from1 (rev (argsort sims)) (n + 1)"
  let ?recs = "map (\<lambda>i. \<lparr>rec_index = i, rec_song = cells track ! i, rec_similarity = sims ! i\<rparr>)
                 ?ixs"
  have r: "recommend_from_song argsort song_name df n = Inr ?recs"
    using sims assms(6) by (simp add: build_recs_artist)
  have "sorted_wrt (\<lambda>a b. rec_similarity a \<ge> rec_similarity b) ?recs"
    using similar_indices_sorted[OF assms(1), of sims "n + 1"] by (simp add: sorted_wrt_map)
  with r show ?thesis by blast
qed

theorem ranking_order_witness:
  "argsort_spec insertion_argsort
   \<and> wf_df catalog_ties
   \<and> getitem catalog_ties track_column =
       Inr (ObjCol [Some ''A'', Some ''B'', Some ''C'', Some ''D'', Some ''E''])
   \<and> CObj (Some ''B'') \<in> set (cells (ObjCol [Some ''A'', Some ''B'', Some ''C'', Some ''D'', Some ''E'']))
   \<and> feature_cols catalog_ties = Inr [''energy'']
   \<and> getitem catalog_ties artist_column =
       Inr (ObjCol [Some ''v'', Some ''w'', Some ''x'', Some ''y'', Some ''z''])
   \<and> (1::int) \<le> 3
   \<and> (\<exists>recs. recommend_from_song insertion_argsort ''B'' catalog_ties 3 = Inr recs
           \<and> sorted_wrt (\<lambda>a b. rec_similarity a \<ge> rec_similarity b) recs)"
  using ranking_order
    [OF insertion_argsort_spec, of catalog_ties
        "ObjCol [Some ''A'', Some ''B'', Some ''C'', Some ''D'', Some ''E'']" "''B''"
        "[''energy'']" "ObjCol [Some ''v'', Some ''w'', Some ''x'', Some ''y'', Some ''z'']" 3]
    insertion_argsort_spec
  by (simp add: catalog_ties_facts)

text \<open>
  C3 (as stated) fails. In \<open>catalog_ties\<close> the songs B, C, D, E have the same feature
  value, so they score the same against the query A. With a sort that meets the
  contract and keeps equal scores in their input order, the reversal lists them as
  E, D, C, B, the reverse of their catalog order.
\<close>

theorem tie_order_counterexample:
  "argsort_spec insertion_argsort
   \<and> recommend_from_song insertion_argsort ''A'' catalog_ties 10 =
       Inr [\<lparr>rec_index = 4, rec_song = CObj (Some ''E''), rec_similarity = - 1\<rparr>,
            \<lparr>rec_index = 3, rec_song = CObj (Some ''D''), rec_similarity = - 1\<rparr>,
            \<lparr>rec_index = 2, rec_song = CObj (Some ''C''), rec_similarity = - 1\<rparr>,
            \<lparr>rec_index = 1, rec_song = CObj (Some ''B''), rec_similarity = - 1\<rparr>]"
  by (simp add: insertion_argsort_spec recommend_from_song_def rank_on_features_def
      catalog_ties_facts catalog_ties_scores slice_from1_def build_recs_def)

text \<open>
  C4. For a well-formed catalog that holds the query identifier in its track column,
  has an artist column and at least one feature column, for every count of at least 1
  and every sort that meets numpy's contract, the call returns and the result has
  exactly \<open>min(count, N - 1)\<close> rows.
\<close>

theorem count_bound:
  assumes "argsort_spec argsort"
    and "wf_df df" and "getitem df track_column = Inr track"
    and "CObj (Some song_name) \<in> set (cells track)"
    and "feature_cols df = Inr fc"
    and "getitem df artist_column = Inr artist"
    and "1 \<le> n"
  shows "\<exists>recs. recommend_from_song argsort song_name df n = Inr recs
           \<and> length recs = min (nat n) (n_rows df - 1)"
proof -
  from recommend_found[OF assms(2-5)] obtain sims where
    sims: "length sims = n_rows df"
      "recommend_from_song argsort song_name df n =
         build_recs df (cells track) sims (slice_from1 (rev (argsort sims)) (n + 1))"
    by blast
  have "length (slice_from1 (rev (argsort sims)) (n + 1)) = min (nat n) (n_rows df - 1)"
    using assms(7) sims(1) argsort_spec_length[OF assms(1), of sims]
    by (simp add: slice_from1_length)
  then show ?thesis
    using sims(2) assms(6) by (simp add: build_recs_artist)
qed

theorem count_bound_witness:
  "argsort_spec insertion_argsort
   \<and> wf_df catalog_dup
   \<and> getitem catalog_dup track_column = Inr (ObjCol [Some ''A'', Some ''B'', Some ''C'', Some ''D''])
   \<and> CObj (Some ''C'') \<in> set (cells (ObjCol [Some ''A'', Some ''B'', Some ''C'', Some ''D'']))
   \<and> feature_cols catalog_dup = Inr [''energy'']
   \<and> getitem catalog_dup artist_column = Inr (ObjCol [Some ''w'', Some ''x'', Some ''y'', Some ''z''])
   \<and> (1::int) \<le> 2
   \<and> (\<exists>recs. recommend_from_song insertion_argsort ''C'' catalog_dup 2 = Inr recs
         \<and> length recs = 2)"
  using count_bound
    [OF insertion_argsort_spec, of catalog_dup
        "ObjCol [Some ''A'', Some ''B'', Some ''C'', Some ''D'']" "''C''"
        "[''energy'']" "ObjCol [Some ''w'', Some ''x'', Some ''y'', Some ''z'']" 2]
    insertion_argsort_spec
  by (simp add: catalog_dup_facts)

text \<open>
  C5 (as amended). For a query that is present, the call scores on the catalog's
  float64 and int64 columns whose names are outside the exclusion list \<open>exclude_cols\<close>
  (artist, song, duration_ms, explicit, year, popularity, genre), in catalog order;
  only when there is no such column does it score on the float64 and int64 columns
  other than year and popularity; and when that list is empty too the call raises
  \<open>ValueError('No numeric features found for recommendations')\<close>. Every canonical
  feature except duration_ms that the catalog provides as a numeric column is in the
  schema, together with every other numeric column outside the list.
\<close>

theorem scoring_schema:
  assumes "getitem df track_column = Inr track"
    and "CObj (Some song_name) \<in> set (cells track)"
  shows "let schema = (if \<exists>col \<in> set (numeric_cols df). col \<notin> set exclude_cols
                       then filter (\<lambda>col. col \<notin> set exclude_cols) (numeric_cols df)
                       else filter (\<lambda>col. col \<noteq> ''year'' \<and> col \<noteq> ''popularity'')
                              (numeric_cols df))
         in recommend_from_song argsort song_name df n =
              (if schema = []
               then Inl (ValueError ''No numeric features found for recommendations'')
               else rank_on_features argsort song_name df n track schema)
            \<and> (\<forall>col \<in> set FEATURE_COLS.
                  col \<noteq> ''duration_ms'' \<and> col \<in> set (numeric_cols df) \<longrightarrow> col \<in> set schema)"
proof -
  define schema where
    "schema = (if \<exists>col \<in> set (numeric_cols df). col \<notin> set exclude_cols
               then filter (\<lambda>col. col \<notin> set exclude_cols) (numeric_cols df)
               else filter (\<lambda>col. col \<noteq> ''year'' \<and> col \<noteq> ''popularity'') (numeric_cols df))"
  have fc: "feature_cols df =
              (if schema = [] then Inl (ValueError ''No numeric features found for recommendations'')
               else Inr schema)"
    unfolding schema_def using feature_cols_closed[of df] by (simp add: Let_def)
  have call: "recommend_from_song argsort song_name df n =
                (if schema = []
                 then Inl (ValueError ''No numeric features found for recommendations'')
                 else rank_on_features argsort song_name df n track schema)"
    using assms by (simp add: recommend_from_song_def fc)
  have canon: "col \<in> set schema"
    if "col \<in> set FEATURE_COLS" and "col \<noteq> ''duration_ms''"
      and "col \<in> set (numeric_cols df)" for col
  proof -
    from that(1,2) have "col \<notin> set exclude_cols" by (rule canonical_not_excluded)
    with that(3) show ?thesis unfolding schema_def by auto
  qed
  from call canon show ?thesis
    unfolding Let_def schema_def[symmetric] by blast
qed

theorem scoring_schema_witness:
  "getitem catalog_schema track_column = Inr (ObjCol [Some ''A'', Some ''B''])
   \<and> CObj (Some ''A'') \<in> set (cells (ObjCol [Some ''A'', Some ''B'']))
   \<and> recommend_from_song insertion_argsort ''A'' catalog_schema 10 =
       rank_on_features insertion_argsort ''A'' catalog_schema 10
         (ObjCol [Some ''A'', Some ''B'']) [''energy'', ''bpm'']
   \<and> getitem catalog_no_features track_column = Inr (ObjCol [Some ''A'', Some ''B''])
   \<and> recommend_from_song insertion_argsort ''A'' catalog_no_features 10 =
       Inl (ValueError ''No numeric features found for recommendations'')"
  using scoring_schema
      [of catalog_schema "ObjCol [Some ''A'', Some ''B'']" "''A''" insertion_argsort 10]
    scoring_schema
      [of catalog_no_features "ObjCol [Some ''A'', Some ''B'']" "''A''" insertion_argsort 10]
  by (simp add: catalog_schema_facts catalog_no_features_facts exclude_cols_def Let_def)

text \<open>
  C5 (as stated) fails. \<open>catalog_schema\<close> provides the canonical features energy and
  duration_ms and the further numeric column bpm. The intersection of the canonical
  list with the catalog's columns is energy, duration_ms (it is also what the loader
  reports), but the columns scored on are energy and bpm.
\<close>

theorem scoring_schema_counterexample:
  "filter (\<lambda>col. col \<in> set (map fst catalog_schema)) FEATURE_COLS = [''energy'', ''duration_ms'']
   \<and> available_features catalog_schema = Inr [''energy'', ''duration_ms'']
   \<and> feature_cols catalog_schema = Inr [''energy'', ''bpm'']
   \<and> feature_cols catalog_schema
       \<noteq> Inr (filter (\<lambda>col. col \<in> set (map fst catalog_schema)) FEATURE_COLS)
   \<and> recommend_from_song insertion_argsort ''A'' catalog_schema 10 =
       rank_on_features insertion_argsort ''A'' catalog_schema 10
         (ObjCol [Some ''A'', Some ''B'']) [''energy'', ''bpm'']"
  by (simp add: catalog_schema_def FEATURE_COLS_def available_features_def
      audio_feature_columns_def feature_cols_def numeric_cols_def exclude_cols_def
      recommend_from_song_def getitem_def track_column_def)

text \<open>
  C7. The similarity computation never fails, and the score of a row whose Euclidean
  norm is 0 is 0 against every query vector; when the query vector itself has norm 0
  (in particular when it is that row), every score is 0.
\<close>

theorem zero_norm_row_scores_zero:
  "\<exists>sims. cosine_similarity x Y = Inr sims \<and> length sims = length Y
     \<and> (\<forall>i < length Y. row_norm (Y ! i) = 0 \<or> row_norm x = 0 \<longrightarrow> sims ! i = 0)"
  by (auto simp: cosine_similarity_Inr dot_zero_right dot_zero_left unit_row_zero)

theorem zero_norm_row_scores_zero_witness:
  "row_norm [0, 0] = 0
   \<and> (\<exists>sims. cosine_similarity [1, 2] [[0, 0], [1, 2]] = Inr sims \<and> length sims = 2
         \<and> sims ! 0 = 0)"
  using zero_norm_row_scores_zero[of "[1, 2]" "[[0, 0], [1, 2]]"]
  by (auto simp: row_norm_def dot_def)

text \<open>
  C10. For a well-formed catalog of exactly one song, with an artist column and at
  least one feature column, and every sort that meets numpy's contract, the call with
  that song's identifier and count 10 returns the empty list and raises nothing.
\<close>

theorem single_song_empty_result:
  assumes "argsort_spec argsort"
    and "wf_df df" and "getitem df track_column = Inr track"
    and "CObj (Some song_name) \<in> set (cells track)"
    and "feature_cols df = Inr fc"
    and "getitem df artist_column = Inr artist"
    and "n_rows df = 1"
  shows "recommend_from_song argsort song_name df 10 = Inr []"
proof -
  from recommend_found[OF assms(2-5)] obtain sims where
    sims: "length sims = n_rows df"
      "recommend_from_song argsort song_name df 10 =
         build_recs df (cells track) sims (slice_from1 (rev (argsort sims)) (10 + 1))"
    by blast
  obtain k where k: "slice_from1 (rev (argsort sims)) (10 + 1) = drop 1 (take k (rev (argsort sims)))"
    using slice_from1_sublist by blast
  have "length (drop 1 (take k (rev (argsort sims)))) = 0"
    using sims(1) assms(7) argsort_spec_length[OF assms(1), of sims] by simp
  then have "slice_from1 (rev (argsort sims)) (10 + 1) = []"
    using k by simp
  then show ?thesis
    using sims(2) assms(6) by (simp add: build_recs_artist)
qed

theorem single_song_empty_result_witness:
  "argsort_spec insertion_argsort
   \<and> wf_df catalog_single
   \<and> getitem catalog_single track_column = Inr (ObjCol [Some ''A''])
   \<and> CObj (Some ''A'') \<in> set (cells (ObjCol [Some ''A'']))
   \<and> feature_cols catalog_single = Inr [''energy'']
   \<and> getitem catalog_single artist_column = Inr (ObjCol [Some ''w''])
   \<and> n_rows catalog_single = 1
   \<and> recommend_from_song insertion_argsort ''A'' catalog_single 10 = Inr []"
  using single_song_empty_result
    [OF insertion_argsort_spec, of catalog_single "ObjCol [Some ''A'']" "''A''" "[''energy'']"
        "ObjCol [Some ''w'']"]
    insertion_argsort_spec
  by (simp add: catalog_single_facts)

end
